theory Spec2Isabelle
  imports Main "HOL-Library.Word"
begin

unbundle bit_operations_syntax

section \<open>The MCTP dissector (epan/dissectors/packet-mctp.c)\<close>

text \<open>
  The development embeds \<^verbatim>\<open>dissect_mctp\<close> of \<^verbatim>\<open>packet-mctp.c\<close>. The dissector is one C
  function; everything it calls (the buffer accessors \<^verbatim>\<open>tvb_*\<close>, the column functions
  \<^verbatim>\<open>col_*\<close>, the reassembly functions of \<^verbatim>\<open>epan/reassemble.c\<close> and the dissector table)
  lives in other files, and is modelled below from the MCTP specification's description
  of it. The protocol tree (\<^verbatim>\<open>proto_tree_add_*\<close>) is presentation only and is left out,
  apart from the sequence value that \<^verbatim>\<open>proto_tree_add_item_ret_uint\<close> hands back.
\<close>

subsection \<open>Buffers\<close>

type_synonym guint8 = "8 word"
type_synonym guint = "32 word"
type_synonym guint32 = "32 word"

text \<open>
  Modelled from the spec: the buffer type \<^verbatim>\<open>tvbuff_t\<close> and its accessors
  (\<^verbatim>\<open>epan/tvbuff.c\<close>) are missing. The specification speaks of a byte buffer with one
  length, so a buffer is the list of its bytes and both lengths are the list's length.
  An access outside the buffer throws, which is the value \<open>Inl ReportedBoundsError\<close>.
\<close>

type_synonym tvbuff = "guint8 list"

datatype exn = ReportedBoundsError

definition tvb_reported_length :: "tvbuff \<Rightarrow> nat" where
  "tvb_reported_length tvb = length tvb"

definition tvb_captured_length :: "tvbuff \<Rightarrow> nat" where
  "tvb_captured_length tvb = length tvb"

definition tvb_captured_length_remaining :: "tvbuff \<Rightarrow> nat \<Rightarrow> nat" where
  "tvb_captured_length_remaining tvb offset =
     (if offset \<le> length tvb then length tvb - offset else 0)"

definition tvb_get_guint8 :: "tvbuff \<Rightarrow> nat \<Rightarrow> exn + guint8" where
  "tvb_get_guint8 tvb offset =
     (if offset < length tvb then Inr (tvb ! offset) else Inl ReportedBoundsError)"

text \<open>
  \<^verbatim>\<open>tvb_get_bits8(tvb, bit_offset, no_of_bits)\<close>: bits are counted from the most
  significant bit of the first octet; at most eight bits, which may lie in two octets.
\<close>

definition tvb_get_bits8 :: "tvbuff \<Rightarrow> nat \<Rightarrow> nat \<Rightarrow> exn + guint8" where
  "tvb_get_bits8 tvb bit_offset no_of_bits =
     (let octet = bit_offset div 8; shift = bit_offset mod 8 in
      if shift + no_of_bits \<le> 8 then
        (case tvb_get_guint8 tvb octet of
           Inl e \<Rightarrow> Inl e
         | Inr b \<Rightarrow> Inr (drop_bit (8 - (shift + no_of_bits)) b AND mask no_of_bits))
      else
        (case tvb_get_guint8 tvb octet of
           Inl e \<Rightarrow> Inl e
         | Inr b \<Rightarrow>
            (case tvb_get_guint8 tvb (octet + 1) of
               Inl e \<Rightarrow> Inl e
             | Inr c \<Rightarrow>
                 Inr (ucast (drop_bit (16 - (shift + no_of_bits))
                        (push_bit 8 (ucast b :: 16 word) OR ucast c) AND mask no_of_bits)))))"

definition tvb_new_subset_remaining :: "tvbuff \<Rightarrow> nat \<Rightarrow> tvbuff" where
  "tvb_new_subset_remaining tvb offset = drop offset tvb"

subsection \<open>Packet information\<close>

text \<open>
  Modelled from the spec: \<^verbatim>\<open>packet_info\<close>, \<^verbatim>\<open>address\<close> and the column functions
  (\<^verbatim>\<open>epan/packet_info.h\<close>, \<^verbatim>\<open>epan/address.h\<close>, \<^verbatim>\<open>epan/column-utils.c\<close>) are missing. Only
  the fields the dissector reads or writes are kept.
\<close>

datatype address_type = AT_NONE | AT_MCTP

record address =
  addr_type :: address_type
  addr_len :: nat
  addr_data :: "guint8 list"

datatype port_type = PT_NONE | PT_MCTP

datatype column = COL_PROTOCOL | COL_INFO

record packet_info =
  dl_src :: address
  dl_dst :: address
  src :: address
  dst :: address
  ptype :: port_type
  srcport :: guint32
  destport :: guint32
  fragmented :: bool
  cinfo :: "column \<Rightarrow> string"

definition set_address_tvb :: "address_type \<Rightarrow> nat \<Rightarrow> tvbuff \<Rightarrow> nat \<Rightarrow> exn + address" where
  "set_address_tvb at len tvb offset =
     (if offset + len \<le> length tvb
      then Inr \<lparr>addr_type = at, addr_len = len, addr_data = take len (drop offset tvb)\<rparr>
      else Inl ReportedBoundsError)"

definition col_set_str :: "(column \<Rightarrow> string) \<Rightarrow> column \<Rightarrow> string \<Rightarrow> (column \<Rightarrow> string)" where
  "col_set_str ci col s = ci(col := s)"

definition col_clear :: "(column \<Rightarrow> string) \<Rightarrow> column \<Rightarrow> (column \<Rightarrow> string)" where
  "col_clear ci col = ci(col := [])"

definition col_append_str :: "(column \<Rightarrow> string) \<Rightarrow> column \<Rightarrow> string \<Rightarrow> (column \<Rightarrow> string)" where
  "col_append_str ci col s = ci(col := ci col @ s)"

text \<open>
  \<^verbatim>\<open>col_add_fstr\<close> and \<^verbatim>\<open>col_append_fstr\<close> take the text already formatted: the column
  is replaced by it, or extended with it.
\<close>

definition col_add_fstr :: "(column \<Rightarrow> string) \<Rightarrow> column \<Rightarrow> string \<Rightarrow> (column \<Rightarrow> string)" where
  "col_add_fstr ci col s = ci(col := s)"

definition col_append_fstr :: "(column \<Rightarrow> string) \<Rightarrow> column \<Rightarrow> string \<Rightarrow> (column \<Rightarrow> string)" where
  "col_append_fstr ci col s = ci(col := ci col @ s)"

text \<open>The conversion \<^verbatim>\<open>%u\<close> of the format strings: an unsigned number in decimal.\<close>

fun fmt_u :: "nat \<Rightarrow> string" where
  "fmt_u n =
     (if n < 10 then [char_of (48 + n)]
      else fmt_u (n div 10) @ [char_of (48 + n mod 10)])"

declare fmt_u.simps [simp del]

subsection \<open>Reassembly\<close>

text \<open>
  Modelled from the spec: the reassembly table and \<^verbatim>\<open>fragment_add_seq_next\<close>,
  \<^verbatim>\<open>process_reassembled_data\<close> (\<^verbatim>\<open>epan/reassemble.c\<close>) are missing. Following section 4.2
  of the specification: the table maps a key to the fragment payloads stored so far, in
  the order they were appended. A fragment looks its state up or creates it and appends
  its payload; with no more fragments to come, the state is complete, leaves the table
  and is handed back; otherwise nothing is handed back. The table is registered with
  \<^verbatim>\<open>addresses_reassembly_table_functions\<close>: its key is the source address and the
  destination address of the packet and the identifier passed by the caller.
\<close>

type_synonym reassembly_key = "address \<times> address \<times> guint32"

type_synonym fragment_head = "guint8 list list"

type_synonym reassembly_table = "reassembly_key \<rightharpoonup> fragment_head"

definition fragment_add_seq_next ::
  "reassembly_table \<Rightarrow> tvbuff \<Rightarrow> nat \<Rightarrow> packet_info \<Rightarrow> guint32 \<Rightarrow> nat \<Rightarrow> bool
     \<Rightarrow> fragment_head option \<times> reassembly_table" where
  "fragment_add_seq_next table tvb offset pinfo ident frag_data_len more_frags =
     (let key = (src pinfo, dst pinfo, ident);
          fd_head = (case table key of None \<Rightarrow> [] | Some fd \<Rightarrow> fd)
                      @ [take frag_data_len (drop offset tvb)]
      in if more_frags then (None, table(key \<mapsto> fd_head))
         else (Some fd_head, table(key := None)))"

text \<open>
  The Reconstructed Message: the stored payloads concatenated in the order they were
  appended; nothing when the reassembly is not complete.
\<close>

definition process_reassembled_data :: "tvbuff \<Rightarrow> nat \<Rightarrow> packet_info \<Rightarrow> fragment_head option \<Rightarrow> tvbuff option" where
  "process_reassembled_data tvb offset pinfo fd_head =
     (case fd_head of None \<Rightarrow> None | Some fd \<Rightarrow> Some (concat fd))"

subsection \<open>Dispatch\<close>

text \<open>
  Modelled from the spec: the dissector table (\<^verbatim>\<open>epan/packet.c\<close>) is missing. It is a
  registry from message-type codes to handlers; \<^verbatim>\<open>dissector_try_uint_new\<close> looks the
  value up and invokes the handler found, if any, on the buffer. What a handler does is
  outside the dissector: an invocation is recorded as the handler and the buffer it got.
\<close>

type_synonym dissector_handle = nat

type_synonym dissector_table = "guint32 \<rightharpoonup> dissector_handle"

definition dissector_try_uint_new ::
  "dissector_table \<Rightarrow> guint32 \<Rightarrow> tvbuff \<Rightarrow> (dissector_handle \<times> tvbuff) list" where
  "dissector_try_uint_new sub_dissectors uint_val tvb =
     (case sub_dissectors uint_val of None \<Rightarrow> [] | Some h \<Rightarrow> [(h, tvb)])"

subsection \<open>The dissector\<close>

definition MCTP_MIN_LENGTH :: nat where
  "MCTP_MIN_LENGTH = 5"

text \<open>
  The outcome of one call: the value returned, the packet information as the call
  leaves it, the reassembly table (a static of the file) and the handlers invoked.
\<close>

record mctp_result =
  ret :: nat
  pinfo_out :: packet_info
  table_out :: reassembly_table
  calls :: "(dissector_handle \<times> tvbuff) list"

definition dissect_mctp ::
  "dissector_table \<Rightarrow> reassembly_table \<Rightarrow> tvbuff \<Rightarrow> packet_info \<Rightarrow> exn + mctp_result" where
  "dissect_mctp mctp_dissector_table mctp_reassembly_table tvb pinfo0 =
     (let pinfo1 = pinfo0\<lparr>cinfo := col_clear (col_set_str (cinfo pinfo0) COL_PROTOCOL ''MCTP'') COL_INFO\<rparr>;
          len = tvb_reported_length tvb
      in
      if len < MCTP_MIN_LENGTH then
        Inr \<lparr>ret = tvb_captured_length tvb,
             pinfo_out = pinfo1\<lparr>cinfo := col_add_fstr (cinfo pinfo1) COL_INFO
                 (''Bogus length '' @ fmt_u len @ '', minimum '' @ fmt_u MCTP_MIN_LENGTH)\<rparr>,
             table_out = mctp_reassembly_table, calls = []\<rparr>
      else
     (case tvb_get_bits8 tvb 4 4 of Inl e \<Rightarrow> Inl e | Inr ver \<Rightarrow>
     (if ver \<noteq> 1 then
        Inr \<lparr>ret = tvb_captured_length tvb,
             pinfo_out = pinfo1\<lparr>cinfo := col_add_fstr (cinfo pinfo1) COL_INFO
                 (''Invalid version '' @ fmt_u (unat ver))\<rparr>,
             table_out = mctp_reassembly_table, calls = []\<rparr>
      else
     (case set_address_tvb AT_MCTP 1 tvb 1 of Inl e \<Rightarrow> Inl e | Inr a_dst \<Rightarrow>
     (case set_address_tvb AT_MCTP 1 tvb 2 of Inl e \<Rightarrow> Inl e | Inr a_src \<Rightarrow>
     (case tvb_get_guint8 tvb 3 of Inl e \<Rightarrow> Inl e | Inr b3 \<Rightarrow>
     (let pinfo2 = pinfo1\<lparr>dl_dst := a_dst, dl_src := a_src, dst := a_dst, src := a_src\<rparr>;
          fst_byte = (ucast b3 :: guint);
          tag = (ucast (fst_byte AND 0x0f) :: guint8);
          seq = drop_bit 4 (fst_byte AND 0x30);
          pinfo3 = pinfo2\<lparr>ptype := PT_MCTP, srcport := ucast tag,
                          destport := ucast (tag XOR 0x08)\<rparr>;
          save_fragmented = fragmented pinfo3;
          pinfo4 = pinfo3\<lparr>cinfo := col_set_str (cinfo pinfo3) COL_INFO ''MCTP message''\<rparr>;
          (next_tvb, table', pinfo5) =
            (if fst_byte AND 0xc0 \<noteq> 0xc0 then
               (let pinfo_f = pinfo4\<lparr>fragmented := True\<rparr>;
                    (frag_msg, tbl) =
                       fragment_add_seq_next mctp_reassembly_table tvb 4 pinfo_f
                         (fst_byte AND 0x7) (tvb_captured_length_remaining tvb 4)
                         (\<not> (fst_byte AND 0x40 \<noteq> 0));
                    new_tvb = process_reassembled_data tvb 4 pinfo_f frag_msg;
                    pinfo_c =
                      (if fst_byte AND 0x40 \<noteq> 0
                       then pinfo_f\<lparr>cinfo := col_append_str (cinfo pinfo_f) COL_INFO '' reassembled''\<rparr>
                       else pinfo_f\<lparr>cinfo := col_append_fstr (cinfo pinfo_f) COL_INFO
                                       ('' frag '' @ fmt_u (unat seq))\<rparr>)
                in (new_tvb, tbl, pinfo_c))
             else (Some (tvb_new_subset_remaining tvb 4), mctp_reassembly_table, pinfo4))
      in
     (case next_tvb of
        None \<Rightarrow>
          Inr \<lparr>ret = tvb_captured_length tvb,
               pinfo_out = pinfo5\<lparr>fragmented := save_fragmented\<rparr>,
               table_out = table', calls = []\<rparr>
      | Some nt \<Rightarrow>
         (case tvb_get_guint8 nt 0 of Inl e \<Rightarrow> Inl e | Inr t \<Rightarrow>
           (let type = (ucast t :: guint) in
            Inr \<lparr>ret = tvb_captured_length tvb,
                 pinfo_out = pinfo5\<lparr>fragmented := save_fragmented\<rparr>,
                 table_out = table',
                 calls = dissector_try_uint_new mctp_dissector_table (type AND 0x7f) nt\<rparr>))))))))))"


subsection \<open>Header fields\<close>

text \<open>
  The header fields registered in \<^verbatim>\<open>proto_register_mctp\<close>: each is an octet of the
  header under the mask of its \<^verbatim>\<open>hf\<close> entry, shifted down to bit 0 (an entry with mask
  \<^verbatim>\<open>0x00\<close> is the whole octet). The version is the same four bits that
  \<^verbatim>\<open>tvb_get_bits8(tvb, 4, 4)\<close> reads. A buffer without four octets has no header.
\<close>

record mctp_header =
  hf_mctp_ver :: guint8
  hf_mctp_dst :: guint8
  hf_mctp_src :: guint8
  hf_mctp_flags_som :: bool
  hf_mctp_flags_eom :: bool
  hf_mctp_seq :: guint8
  hf_mctp_tag_to :: bool
  hf_mctp_tag_value :: guint8

definition mctp_fields :: "tvbuff \<Rightarrow> mctp_header option" where
  "mctp_fields tvb =
     (if length tvb < 4 then None
      else Some \<lparr>hf_mctp_ver = tvb ! 0 AND 0x0f,
                 hf_mctp_dst = tvb ! 1,
                 hf_mctp_src = tvb ! 2,
                 hf_mctp_flags_som = (tvb ! 3 AND 0x80 \<noteq> 0),
                 hf_mctp_flags_eom = (tvb ! 3 AND 0x40 \<noteq> 0),
                 hf_mctp_seq = drop_bit 4 (tvb ! 3 AND 0x30),
                 hf_mctp_tag_to = (tvb ! 3 AND 0x08 \<noteq> 0),
                 hf_mctp_tag_value = tvb ! 3 AND 0x07\<rparr>)"

text \<open>
  The specification's encoder, following the wire layout of its section 6 (the source
  has no encoder): octet 0 carries the version in bits 3-0 and nothing in the reserved
  bits 7-4; octets 1 and 2 are the addresses; octet 3 packs start-of-message (bit 7),
  end-of-message (bit 6), sequence (bits 5-4), tag owner (bit 3) and tag value (bits 2-0).
\<close>

definition spec_encode_header :: "mctp_header \<Rightarrow> guint8 list" where
  "spec_encode_header h =
     [hf_mctp_ver h AND 0x0f,
      hf_mctp_dst h,
      hf_mctp_src h,
      (if hf_mctp_flags_som h then 0x80 else 0) OR (if hf_mctp_flags_eom h then 0x40 else 0)
        OR push_bit 4 (hf_mctp_seq h AND 0x03)
        OR (if hf_mctp_tag_to h then 0x08 else 0) OR (hf_mctp_tag_value h AND 0x07)]"

subsection \<open>Packets the dissector accepts, and their flows\<close>

text \<open>The two checks at the head of \<^verbatim>\<open>dissect_mctp\<close>: the length, then the version.\<close>

definition mctp_accepts :: "tvbuff \<Rightarrow> bool" where
  "mctp_accepts tvb =
     (\<not> tvb_reported_length tvb < MCTP_MIN_LENGTH \<and> tvb_get_bits8 tvb 4 4 = Inr 1)"

text \<open>
  The key under which \<^verbatim>\<open>dissect_mctp\<close> files a fragment: the packet's source address
  (octet 2), its destination address (octet 1), and the identifier \<^verbatim>\<open>fst & 0x7\<close>.
\<close>

definition mctp_address :: "guint8 \<Rightarrow> address" where
  "mctp_address a = \<lparr>addr_type = AT_MCTP, addr_len = 1, addr_data = [a]\<rparr>"

definition mctp_key :: "tvbuff \<Rightarrow> reassembly_key" where
  "mctp_key tvb = (mctp_address (tvb ! 2), mctp_address (tvb ! 1), ucast (tvb ! 3 AND 0x07))"

subsection \<open>A capture\<close>

text \<open>
  Modelled from the spec: the loop of the framework that feeds the dissector is missing.
  Following section 5 of the specification, packets are processed one after the other in
  capture order, each to its end before the next; the reassembly table is carried from
  one call to the next. The result is the final table and, for each packet, the
  handlers it invoked.
\<close>

fun dissect_packets ::
  "dissector_table \<Rightarrow> reassembly_table \<Rightarrow> (tvbuff \<times> packet_info) list
     \<Rightarrow> exn + reassembly_table \<times> (tvbuff \<times> (dissector_handle \<times> tvbuff) list) list" where
  "dissect_packets dt table [] = Inr (table, [])"
| "dissect_packets dt table ((tvb, pinfo) # rest) =
     (case dissect_mctp dt table tvb pinfo of
        Inl e \<Rightarrow> Inl e
      | Inr r \<Rightarrow>
         (case dissect_packets dt (table_out r) rest of
            Inl e \<Rightarrow> Inl e
          | Inr (table', trace) \<Rightarrow> Inr (table', (tvb, calls r) # trace)))"


text \<open>
  A packet is a fragment of the flow with key \<open>k\<close> when the dissector accepts it, takes
  the fragment branch (\<^verbatim>\<open>(fst & 0xc0) != 0xc0\<close>) and files it under \<open>k\<close>.
\<close>

definition in_flow :: "reassembly_key \<Rightarrow> tvbuff \<Rightarrow> bool" where
  "in_flow k tvb = (mctp_accepts tvb \<and> tvb ! 3 AND 0xc0 \<noteq> 0xc0 \<and> mctp_key tvb = k)"

text \<open>A packet information record as a capture hands it over: nothing set yet.\<close>

definition no_address :: address where
  "no_address = \<lparr>addr_type = AT_NONE, addr_len = 0, addr_data = []\<rparr>"

definition pinfo_new :: packet_info where
  "pinfo_new = \<lparr>dl_src = no_address, dl_dst = no_address, src = no_address, dst = no_address,
                 ptype = PT_NONE, srcport = 0, destport = 0, fragmented = False,
                 cinfo = (\<lambda>c. [])\<rparr>"

section \<open>Octets and the 32-bit values the dissector computes with\<close>

text \<open>
  \<^verbatim>\<open>fst\<close> and \<^verbatim>\<open>type\<close> are \<^verbatim>\<open>guint\<close> values read from one octet. The masks the
  dissector applies to them select the same bits of the octet.
\<close>

lemma ucast_8_32_id: "(ucast (ucast (x::guint8) :: guint) :: guint8) = x"
  by (rule ucast_up_ucast_id) (simp add: is_up)

lemma ucast_8_32_inj: "((ucast (x::guint8) :: guint) = ucast y) = (x = y)"
  by (metis ucast_8_32_id)

lemma ucast_8_32_and: "(ucast (b::guint8) :: guint) AND ucast c = ucast (b AND c)"
  by (simp add: unsigned_and_eq)

lemma fst_c0: "((ucast (b::guint8) :: guint) AND 0xc0 = 0xc0) = (b AND 0xc0 = 0xc0)"
  using ucast_8_32_and [of b "0xc0"] ucast_8_32_inj [of "b AND 0xc0" "0xc0"] by simp

lemma fst_40: "((ucast (b::guint8) :: guint) AND 0x40 = 0) = (b AND 0x40 = 0)"
  using ucast_8_32_and [of b "0x40"] ucast_8_32_inj [of "b AND 0x40" "0"] by simp

lemma fst_0f: "(ucast ((ucast (b::guint8) :: guint) AND 0x0f) :: guint8) = b AND 0x0f"
  using ucast_8_32_and [of b "0x0f"] ucast_8_32_id [of "b AND 0x0f"] by simp

lemma fst_07: "(ucast (b::guint8) :: guint) AND 0x7 = ucast (b AND 0x7)"
  using ucast_8_32_and [of b "0x7"] by simp

lemma type_7f: "(ucast (b::guint8) :: guint) AND 0x7f = ucast (b AND 0x7f)"
  using ucast_8_32_and [of b "0x7f"] by simp

lemma eom_clear_fragment: "(b::guint8) AND 0x40 = 0 \<Longrightarrow> b AND 0xc0 \<noteq> 0xc0"
proof
  assume a: "b AND 0x40 = 0" and c: "b AND 0xc0 = 0xc0"
  have "(b AND 0xc0) AND 0x40 = b AND 0x40" by (simp add: and.assoc)
  with a c show False by simp
qed

section \<open>One packet\<close>

lemma mctp_accepts_iff: "mctp_accepts tvb = (5 \<le> length tvb \<and> tvb ! 0 AND 0x0f = 1)"
  by (auto simp: mctp_accepts_def tvb_reported_length_def MCTP_MIN_LENGTH_def
      tvb_get_bits8_def tvb_get_guint8_def mask_eq_exp_minus_1)

lemmas dissect_mctp_unfold =
  dissect_mctp_def Let_def tvb_reported_length_def tvb_captured_length_def MCTP_MIN_LENGTH_def
  tvb_get_bits8_def tvb_get_guint8_def mask_eq_exp_minus_1 set_address_tvb_def
  tvb_new_subset_remaining_def tvb_captured_length_remaining_def
  fragment_add_seq_next_def process_reassembled_data_def mctp_key_def mctp_address_def
  fst_c0 fst_40 fst_07 type_7f take_Suc_conv_app_nth

text \<open>A packet with both flags: its payload is the message; the table is not used.\<close>

lemma dissect_mctp_single:
  assumes "mctp_accepts tvb" and "tvb ! 3 AND 0xc0 = 0xc0"
  shows "\<exists>r. dissect_mctp dt T tvb pinfo = Inr r \<and> ret r = length tvb \<and> table_out r = T
           \<and> calls r = dissector_try_uint_new dt (ucast (tvb ! 4 AND 0x7f)) (drop 4 tvb)"
  using assms by (auto simp add: mctp_accepts_iff dissect_mctp_unfold)

text \<open>A fragment that is not the last: its payload is appended to the state of its key.\<close>

lemma dissect_mctp_more:
  assumes "mctp_accepts tvb" and "tvb ! 3 AND 0x40 = 0"
  shows "\<exists>r. dissect_mctp dt T tvb pinfo = Inr r \<and> ret r = length tvb
           \<and> table_out r = T(mctp_key tvb \<mapsto>
                 (case T (mctp_key tvb) of None \<Rightarrow> [] | Some fd \<Rightarrow> fd) @ [drop 4 tvb])
           \<and> calls r = []"
  using assms eom_clear_fragment [of "tvb ! 3"]
  by (auto simp add: mctp_accepts_iff dissect_mctp_unfold)

text \<open>The last fragment: the state of its key, with its payload, is the message.\<close>

lemma dissect_mctp_last:
  assumes "mctp_accepts tvb" and "tvb ! 3 AND 0xc0 \<noteq> 0xc0" and "tvb ! 3 AND 0x40 \<noteq> 0"
  shows "\<exists>r. dissect_mctp dt T tvb pinfo = Inr r \<and> ret r = length tvb
           \<and> table_out r = T(mctp_key tvb := None)
           \<and> calls r = dissector_try_uint_new dt
                 (ucast ((concat (case T (mctp_key tvb) of None \<Rightarrow> [] | Some fd \<Rightarrow> fd)
                            @ drop 4 tvb) ! 0 AND 0x7f))
                 (concat (case T (mctp_key tvb) of None \<Rightarrow> [] | Some fd \<Rightarrow> fd) @ drop 4 tvb)"
  using assms by (auto simp add: mctp_accepts_iff dissect_mctp_unfold)

text \<open>A packet that fails a check: the call ends there, with the report in the column.\<close>

lemma dissect_mctp_rejected:
  assumes "\<not> mctp_accepts tvb"
  shows "\<exists>r. dissect_mctp dt T tvb pinfo = Inr r \<and> ret r = length tvb \<and> table_out r = T
           \<and> calls r = []
           \<and> cinfo (pinfo_out r) COL_INFO =
               (if length tvb < 5
                then ''Bogus length '' @ fmt_u (length tvb) @ '', minimum '' @ fmt_u 5
                else ''Invalid version '' @ fmt_u (unat (tvb ! 0 AND 0x0f)))"
  using assms
  by (auto simp add: mctp_accepts_iff dissect_mctp_unfold col_add_fstr_def)

text \<open>The dissector throws on no buffer, and returns the buffer's length on every one.\<close>

lemma dissect_mctp_returns:
  "\<exists>r. dissect_mctp dt T tvb pinfo = Inr r \<and> ret r = length tvb"
proof (cases "mctp_accepts tvb")
  case False
  then show ?thesis using dissect_mctp_rejected [of tvb dt T pinfo] by blast
next
  case True
  show ?thesis
  proof (cases "tvb ! 3 AND 0xc0 = 0xc0")
    case True
    with \<open>mctp_accepts tvb\<close> show ?thesis
      using dissect_mctp_single [of tvb dt T pinfo] by blast
  next
    case False
    show ?thesis
    proof (cases "tvb ! 3 AND 0x40 = 0")
      case True
      with \<open>mctp_accepts tvb\<close> show ?thesis
        using dissect_mctp_more [of tvb dt T pinfo] by blast
    next
      case eom: False
      with \<open>mctp_accepts tvb\<close> False show ?thesis
        using dissect_mctp_last [of tvb dt T pinfo] by blast
    qed
  qed
qed

section \<open>Self-contained packets\<close>

text \<open>
  Claim C3. A packet the dissector accepts whose flags octet has both start-of-message
  (bit 7) and end-of-message (bit 6) set hands its payload, the buffer without its first
  four octets, to the handler registered for the message type, in the same call. The
  reassembly table comes out as it went in, and nothing of the outcome depends on what
  the table holds: with any other table the call invokes the same handler on the same
  buffer, leaves the same packet information and returns the same value.
\<close>

theorem som_eom_bypasses_reassembly:
  assumes "mctp_accepts tvb" and "tvb ! 3 AND 0xc0 = 0xc0"
  shows "\<exists>r. dissect_mctp dt T tvb pinfo = Inr r
           \<and> calls r = (case dt (ucast (tvb ! 4 AND 0x7f)) of
                          None \<Rightarrow> [] | Some h \<Rightarrow> [(h, drop 4 tvb)])
           \<and> table_out r = T
           \<and> (\<forall>T'. \<exists>r'. dissect_mctp dt T' tvb pinfo = Inr r' \<and> table_out r' = T'
                  \<and> calls r' = calls r \<and> pinfo_out r' = pinfo_out r \<and> ret r' = ret r)"
  using assms
  by (auto simp add: mctp_accepts_iff dissect_mctp_unfold dissector_try_uint_new_def)

theorem som_eom_bypasses_reassembly_witness:
  "mctp_accepts [0x11, 0x08, 0x09, 0xC0, 0x01, 0xAA, 0xBB]
   \<and> [0x11, 0x08, 0x09, 0xC0, 0x01, 0xAA, 0xBB] ! 3 AND (0xc0 :: guint8) = 0xc0
   \<and> (\<exists>r. dissect_mctp [1 \<mapsto> 7] Map.empty [0x11, 0x08, 0x09, 0xC0, 0x01, 0xAA, 0xBB] pinfo_new = Inr r
          \<and> calls r = [(7, [0x01, 0xAA, 0xBB])] \<and> table_out r = Map.empty)"
proof -
  have a: "mctp_accepts [0x11, 0x08, 0x09, 0xC0, 0x01, 0xAA, 0xBB]"
    by (simp add: mctp_accepts_iff)
  have b: "[0x11, 0x08, 0x09, 0xC0, 0x01, 0xAA, 0xBB] ! 3 AND (0xc0 :: guint8) = 0xc0"
    by simp
  from som_eom_bypasses_reassembly [OF a b, of "[1 \<mapsto> 7]" Map.empty pinfo_new]
  show ?thesis using a b by auto
qed


section \<open>Malformed packets\<close>

text \<open>
  Claim C5. For a buffer of fewer than five octets, and for a buffer of at least five
  octets whose version (octet 0, bits 3-0) is not 1, the call ends with the report in the
  information column (\<^verbatim>\<open>Bogus length\<close> or \<^verbatim>\<open>Invalid version\<close>): no handler is invoked,
  the reassembly table comes out as it went in, and the packets after it are processed
  exactly as they are without it, from the same table.
\<close>

theorem malformed_header_stops:
  assumes "length tvb < 5 \<or> (5 \<le> length tvb \<and> tvb ! 0 AND 0x0f \<noteq> 1)"
  shows "\<exists>r. dissect_mctp dt T tvb pinfo = Inr r
           \<and> calls r = [] \<and> table_out r = T
           \<and> cinfo (pinfo_out r) COL_INFO =
               (if length tvb < 5
                then ''Bogus length '' @ fmt_u (length tvb) @ '', minimum '' @ fmt_u 5
                else ''Invalid version '' @ fmt_u (unat (tvb ! 0 AND 0x0f)))
           \<and> dissect_packets dt T ((tvb, pinfo) # rest) =
               (case dissect_packets dt T rest of
                  Inl e \<Rightarrow> Inl e
                | Inr (T', trace) \<Rightarrow> Inr (T', (tvb, []) # trace))"
proof -
  from assms have "\<not> mctp_accepts tvb" by (auto simp: mctp_accepts_iff)
  from dissect_mctp_rejected [OF this, of dt T pinfo]
  obtain r where r: "dissect_mctp dt T tvb pinfo = Inr r" "table_out r = T" "calls r = []"
    "cinfo (pinfo_out r) COL_INFO =
       (if length tvb < 5
        then ''Bogus length '' @ fmt_u (length tvb) @ '', minimum '' @ fmt_u 5
        else ''Invalid version '' @ fmt_u (unat (tvb ! 0 AND 0x0f)))"
    by blast
  have "dissect_packets dt T ((tvb, pinfo) # rest) =
               (case dissect_packets dt T rest of
                  Inl e \<Rightarrow> Inl e
                | Inr (T', trace) \<Rightarrow> Inr (T', (tvb, []) # trace))"
    using r(1-3) by (simp split: sum.splits prod.splits)
  with r show ?thesis by blast
qed

theorem malformed_header_stops_witness:
  "(length [0x01, 0x08, 0x09, 0xC0 :: guint8] < 5
      \<or> (5 \<le> length [0x01, 0x08, 0x09, 0xC0 :: guint8]
          \<and> [0x01, 0x08, 0x09, 0xC0] ! 0 AND (0x0f :: guint8) \<noteq> 1))
   \<and> (\<exists>r. dissect_mctp [1 \<mapsto> 7] Map.empty [0x01, 0x08, 0x09, 0xC0] pinfo_new = Inr r
          \<and> calls r = [] \<and> table_out r = Map.empty
          \<and> cinfo (pinfo_out r) COL_INFO = ''Bogus length 4, minimum 5'')
   \<and> (length [0x12, 0x08, 0x09, 0xC0, 0x01 :: guint8] < 5
      \<or> (5 \<le> length [0x12, 0x08, 0x09, 0xC0, 0x01 :: guint8]
          \<and> [0x12, 0x08, 0x09, 0xC0, 0x01] ! 0 AND (0x0f :: guint8) \<noteq> 1))
   \<and> (\<exists>r. dissect_mctp [1 \<mapsto> 7] Map.empty [0x12, 0x08, 0x09, 0xC0, 0x01] pinfo_new = Inr r
          \<and> calls r = [] \<and> table_out r = Map.empty
          \<and> cinfo (pinfo_out r) COL_INFO = ''Invalid version 2'')"
proof -
  have a: "length [0x01, 0x08, 0x09, 0xC0 :: guint8] < 5
      \<or> (5 \<le> length [0x01, 0x08, 0x09, 0xC0 :: guint8]
          \<and> [0x01, 0x08, 0x09, 0xC0] ! 0 AND (0x0f :: guint8) \<noteq> 1)"
    by simp
  have b: "length [0x12, 0x08, 0x09, 0xC0, 0x01 :: guint8] < 5
      \<or> (5 \<le> length [0x12, 0x08, 0x09, 0xC0, 0x01 :: guint8]
          \<and> [0x12, 0x08, 0x09, 0xC0, 0x01] ! 0 AND (0x0f :: guint8) \<noteq> 1)"
    by simp
  have f: "fmt_u (Suc (Suc (Suc (Suc 0)))) = ''4''" "fmt_u 5 = ''5''" "fmt_u 2 = ''2''"
    by code_simp+
  from malformed_header_stops [OF a, of "[1 \<mapsto> 7]" Map.empty pinfo_new "[]"]
       malformed_header_stops [OF b, of "[1 \<mapsto> 7]" Map.empty pinfo_new "[]"]
  show ?thesis using a b f by auto
qed

section \<open>The value returned\<close>

text \<open>
  Claim C8, as the code has it. The three \<^verbatim>\<open>return\<close> statements of \<^verbatim>\<open>dissect_mctp\<close> are the
  same \<^verbatim>\<open>tvb_captured_length(tvb)\<close>: on every buffer, well-formed or malformed, the call
  returns, and the value returned is the length of the whole buffer.
\<close>

theorem returns_captured_length:
  "\<exists>r. dissect_mctp dt T tvb pinfo = Inr r \<and> ret r = tvb_captured_length tvb
        \<and> tvb_captured_length tvb = length tvb"
  using dissect_mctp_returns [of dt T tvb pinfo] by (simp add: tvb_captured_length_def)

text \<open>
  The claim as stated asks for a value below the buffer's length on malformed input. A
  buffer of four octets returns 4, and a buffer of five octets with version 2 returns 5.
\<close>

theorem short_return_counterexample:
  "(\<exists>r. dissect_mctp [1 \<mapsto> 7] Map.empty [0x01, 0x08, 0x09, 0xC0] pinfo_new = Inr r
        \<and> ret r = 4 \<and> \<not> ret r < length [0x01, 0x08, 0x09, 0xC0 :: guint8])
   \<and> (\<exists>r. dissect_mctp [1 \<mapsto> 7] Map.empty [0x12, 0x08, 0x09, 0xC0, 0x01] pinfo_new = Inr r
        \<and> ret r = 5 \<and> \<not> ret r < length [0x12, 0x08, 0x09, 0xC0, 0x01 :: guint8])"
  by (simp add: dissect_mctp_unfold)

section \<open>The header round trip\<close>

lemma guint8_eqI:
  assumes "bit a 0 = bit b 0" "bit a 1 = bit b 1" "bit a 2 = bit b 2" "bit a 3 = bit b 3"
    "bit a 4 = bit b 4" "bit a 5 = bit b 5" "bit a 6 = bit b 6" "bit a 7 = bit b 7"
  shows "a = (b::guint8)"
proof (rule bit_word_eqI)
  fix n assume "n < LENGTH(8)"
  then have "n \<in> {0, 1, 2, 3, 4, 5, 6, 7}"
    by auto
  with assms show "bit a n = bit b n" by auto
qed

lemma and_80: "((b::guint8) AND 0x80 = 0) = (\<not> bit b 7)"
  using and_exp_eq_0_iff_not_bit [of b 7] by simp

lemma and_40: "((b::guint8) AND 0x40 = 0) = (\<not> bit b 6)"
  using and_exp_eq_0_iff_not_bit [of b 6] by simp

lemma and_08: "((b::guint8) AND 0x08 = 0) = (\<not> bit b 3)"
  using and_exp_eq_0_iff_not_bit [of b 3] by simp

lemma octet3_parts:
  "(if b AND 0x80 \<noteq> 0 then 0x80 else 0) OR (if b AND 0x40 \<noteq> 0 then 0x40 else 0)
     OR push_bit 4 (drop_bit 4 (b AND 0x30) AND 0x03)
     OR (if b AND 0x08 \<noteq> 0 then 0x08 else 0) OR (b AND 0x07 AND 0x07) = (b::guint8)"
  by (rule guint8_eqI) (simp_all add: bit_simps and_80 and_40 and_08)

lemma octet0_split: "(b::guint8) = (b AND 0x0f) OR (b AND 0xf0)"
  by (rule guint8_eqI) (simp_all add: bit_simps)

lemma octet0_parts: "((b::guint8) AND 0x0f = b) = (b AND 0xf0 = 0)"
proof
  assume "b AND 0x0f = b"
  then have "b AND 0xf0 = (b AND 0x0f) AND 0xf0" by simp
  also have "\<dots> = 0" by (simp add: and.assoc)
  finally show "b AND 0xf0 = 0" .
next
  assume "b AND 0xf0 = 0"
  with octet0_split [of b] show "b AND 0x0f = b" by simp
qed

lemma take_4:
  assumes "4 \<le> length xs"
  shows "take 4 xs = [xs ! 0, xs ! 1, xs ! 2, xs ! 3]"
proof -
  from assms obtain a b c d ys where "xs = a # b # c # d # ys"
    by (auto simp: numeral_eq_Suc Suc_le_length_iff)
  then show ?thesis by simp
qed

text \<open>
  Claim C7, as the code has it. The dissector reads the version from bits 3-0 of octet 0
  and no field from its bits 7-4. For every header it accepts, encoding the decoded
  fields gives octets 1, 2 and 3 as they were and octet 0 with bits 7-4 cleared, which is
  \<^verbatim>\<open>0x01\<close>; the four octets come back as they were exactly when bits 7-4 of octet 0 are
  zero.
\<close>

theorem header_round_trip:
  assumes "mctp_accepts tvb"
  shows "map_option spec_encode_header (mctp_fields tvb)
           = Some [tvb ! 0 AND 0x0f, tvb ! 1, tvb ! 2, tvb ! 3]
       \<and> tvb ! 0 AND 0x0f = 1
       \<and> (map_option spec_encode_header (mctp_fields tvb) = Some (take 4 tvb))
           = (tvb ! 0 AND 0xf0 = 0)"
proof -
  from assms have len: "5 \<le> length tvb" and ver: "tvb ! 0 AND 0x0f = 1"
    by (simp_all add: mctp_accepts_iff)
  have enc: "map_option spec_encode_header (mctp_fields tvb)
           = Some [tvb ! 0 AND 0x0f, tvb ! 1, tvb ! 2, tvb ! 3]"
    using len octet3_parts [of "tvb ! 3"]
    by (simp add: mctp_fields_def spec_encode_header_def and.assoc)
  have tk: "take 4 tvb = [tvb ! 0, tvb ! 1, tvb ! 2, tvb ! 3]"
    using len by (rule_tac take_4) simp
  show ?thesis using enc ver octet0_parts [of "tvb ! 0"] by (auto simp: tk)
qed

theorem header_round_trip_witness:
  "mctp_accepts [0x01, 0x08, 0x09, 0xC0, 0x01, 0xAA, 0xBB]
   \<and> map_option spec_encode_header (mctp_fields [0x01, 0x08, 0x09, 0xC0, 0x01, 0xAA, 0xBB])
       = Some [0x01, 0x08, 0x09, 0xC0]"
proof -
  have a: "mctp_accepts [0x01, 0x08, 0x09, 0xC0, 0x01, 0xAA, 0xBB]"
    by (simp add: mctp_accepts_iff)
  from header_round_trip [OF a] show ?thesis using a by simp
qed

text \<open>
  The claim as stated fails on the header \<^verbatim>\<open>11 08 09 C0\<close>, which the dissector accepts:
  its fields encode to \<^verbatim>\<open>01 08 09 C0\<close>. No encoder of the fields can do better, since
  the two headers have the same fields.
\<close>

theorem header_round_trip_counterexample:
  "mctp_accepts [0x11, 0x08, 0x09, 0xC0, 0x01, 0xAA, 0xBB]
   \<and> map_option spec_encode_header (mctp_fields [0x11, 0x08, 0x09, 0xC0, 0x01, 0xAA, 0xBB])
       = Some [0x01, 0x08, 0x09, 0xC0]
   \<and> [0x01, 0x08, 0x09, 0xC0] \<noteq> take 4 [0x11, 0x08, 0x09, 0xC0, 0x01, 0xAA, 0xBB :: guint8]
   \<and> mctp_fields [0x11, 0x08, 0x09, 0xC0, 0x01, 0xAA, 0xBB]
       = mctp_fields [0x01, 0x08, 0x09, 0xC0, 0x01, 0xAA, 0xBB]"
  by (simp add: mctp_accepts_iff mctp_fields_def spec_encode_header_def)


section \<open>Ports\<close>

lemma tag_parts: "(b::guint8) AND 0x0f = (if b AND 0x08 \<noteq> 0 then 0x08 else 0) OR (b AND 0x07)"
  by (rule guint8_eqI) (simp_all add: bit_simps and_08)

lemma tag_flipped: "((b::guint8) AND 0x0f) XOR 0x08 = (if b AND 0x08 \<noteq> 0 then 0 else 0x08) OR (b AND 0x07)"
  by (rule guint8_eqI) (simp_all add: bit_simps and_08)

lemma dissect_mctp_ports:
  assumes "mctp_accepts tvb"
  shows "\<exists>r. dissect_mctp dt T tvb pinfo = Inr r \<and> ptype (pinfo_out r) = PT_MCTP
           \<and> srcport (pinfo_out r) = ucast (tvb ! 3 AND 0x0f)
           \<and> destport (pinfo_out r) = ucast ((tvb ! 3 AND 0x0f) XOR 0x08)"
  using assms
  by (auto simp add: mctp_accepts_iff dissect_mctp_unfold fst_0f split: option.splits)

text \<open>
  Claim C9, as the code has it. For every packet the dissector accepts, the source port
  is \<^verbatim>\<open>fst & 0x0f\<close>, the four-bit tag: the tag-owner bit in bit 3 over the tag value in
  bits 2-0, a value from 0 to 15. The destination port is the same tag with the
  tag-owner bit flipped.
\<close>

theorem ports_from_tag:
  assumes "mctp_accepts tvb"
  shows "\<exists>r h. dissect_mctp dt T tvb pinfo = Inr r \<and> mctp_fields tvb = Some h
           \<and> srcport (pinfo_out r) = ucast (tvb ! 3 AND 0x0f)
           \<and> srcport (pinfo_out r)
               = (if hf_mctp_tag_to h then 0x08 else 0) OR ucast (hf_mctp_tag_value h)
           \<and> destport (pinfo_out r)
               = (if hf_mctp_tag_to h then 0 else 0x08) OR ucast (hf_mctp_tag_value h)"
proof -
  from dissect_mctp_ports [OF assms, of dt T pinfo]
  obtain r where r: "dissect_mctp dt T tvb pinfo = Inr r"
    "srcport (pinfo_out r) = ucast (tvb ! 3 AND 0x0f)"
    "destport (pinfo_out r) = ucast ((tvb ! 3 AND 0x0f) XOR 0x08)"
    by blast
  from assms have len: "5 \<le> length tvb" by (simp add: mctp_accepts_iff)
  define h where "h = the (mctp_fields tvb)"
  from len have h: "mctp_fields tvb = Some h"
    "hf_mctp_tag_to h = (tvb ! 3 AND 0x08 \<noteq> 0)" "hf_mctp_tag_value h = tvb ! 3 AND 0x07"
    by (simp_all add: h_def mctp_fields_def)
  have s: "srcport (pinfo_out r) = (if hf_mctp_tag_to h then 0x08 else 0) OR ucast (hf_mctp_tag_value h)"
    unfolding r(2) h(2,3) tag_parts [of "tvb ! 3"] by (simp add: unsigned_or_eq)
  have d: "destport (pinfo_out r) = (if hf_mctp_tag_to h then 0 else 0x08) OR ucast (hf_mctp_tag_value h)"
    unfolding r(3) h(2,3) tag_flipped [of "tvb ! 3"] by (simp add: unsigned_or_eq)
  from r(1,2) h(1) s d show ?thesis by blast
qed

theorem ports_from_tag_witness:
  "mctp_accepts [0x01, 0x08, 0x09, 0xCB, 0x01]
   \<and> (\<exists>r. dissect_mctp [1 \<mapsto> 7] Map.empty [0x01, 0x08, 0x09, 0xCB, 0x01] pinfo_new = Inr r
          \<and> srcport (pinfo_out r) = 11 \<and> destport (pinfo_out r) = 3)"
proof -
  have a: "mctp_accepts [0x01, 0x08, 0x09, 0xCB, 0x01]"
    by (simp add: mctp_accepts_iff)
  from ports_from_tag [OF a, of "[1 \<mapsto> 7]" Map.empty pinfo_new]
  show ?thesis using a by (auto simp: mctp_fields_def)
qed

text \<open>
  The claim as stated makes the source port the three-bit tag value. With the tag-owner
  bit set (flags octet \<^verbatim>\<open>CB\<close>: tag owner 1, tag value 3) the source port is 11.
\<close>

theorem srcport_tag_value_counterexample:
  "mctp_accepts [0x01, 0x08, 0x09, 0xCB, 0x01]
   \<and> (\<exists>r h. dissect_mctp [1 \<mapsto> 7] Map.empty [0x01, 0x08, 0x09, 0xCB, 0x01] pinfo_new = Inr r
          \<and> mctp_fields [0x01, 0x08, 0x09, 0xCB, 0x01] = Some h
          \<and> hf_mctp_tag_value h = 3 \<and> srcport (pinfo_out r) = 11
          \<and> srcport (pinfo_out r) \<noteq> ucast (hf_mctp_tag_value h))"
  by (simp add: mctp_accepts_iff dissect_mctp_unfold mctp_fields_def)

section \<open>Dispatch\<close>

text \<open>
  Claim C6, as the code has it. For every complete message, the payload of a packet with
  both flags or the message a last fragment completes, the dissector reads the first
  octet, keeps its low seven bits as the message type (an octet and the same octet with
  bit 7 set select the same handler) and invokes the handler registered for that type
  on the whole message: the buffer handed over still starts with the message-type octet.
\<close>

theorem dispatch_whole_message:
  assumes "mctp_accepts tvb" and "tvb ! 3 AND 0x40 \<noteq> 0"
  shows "\<exists>r msg. dissect_mctp dt T tvb pinfo = Inr r
           \<and> msg = (if tvb ! 3 AND 0xc0 = 0xc0 then drop 4 tvb
                    else concat (case T (mctp_key tvb) of None \<Rightarrow> [] | Some fd \<Rightarrow> fd) @ drop 4 tvb)
           \<and> msg \<noteq> []
           \<and> calls r = (case dt (ucast (msg ! 0 AND 0x7f)) of
                          None \<Rightarrow> [] | Some h \<Rightarrow> [(h, msg)])
           \<and> dt (ucast ((msg ! 0 OR 0x80) AND 0x7f)) = dt (ucast (msg ! 0 AND 0x7f))"
proof (cases "tvb ! 3 AND 0xc0 = 0xc0")
  case True
  from assms(1) have "drop 4 tvb \<noteq> []" by (simp add: mctp_accepts_iff)
  moreover from assms(1) have "drop 4 tvb ! 0 = tvb ! 4" by (simp add: mctp_accepts_iff)
  ultimately show ?thesis
    using dissect_mctp_single [OF assms(1) True, of dt T pinfo] True
    by (auto simp: dissector_try_uint_new_def bit.conj_disj_distrib2)
next
  case False
  from assms(1) have "drop 4 tvb \<noteq> []" by (simp add: mctp_accepts_iff)
  then show ?thesis
    using dissect_mctp_last [OF assms(1) False assms(2), of dt T pinfo] False
    by (auto simp: dissector_try_uint_new_def bit.conj_disj_distrib2)
qed

theorem dispatch_whole_message_witness:
  "mctp_accepts [0x11, 0x08, 0x09, 0xC0, 0x81, 0xAA, 0xBB]
   \<and> [0x11, 0x08, 0x09, 0xC0, 0x81, 0xAA, 0xBB] ! 3 AND (0x40 :: guint8) \<noteq> 0
   \<and> (\<exists>r. dissect_mctp [1 \<mapsto> 7] Map.empty [0x11, 0x08, 0x09, 0xC0, 0x81, 0xAA, 0xBB] pinfo_new = Inr r
          \<and> calls r = [(7, [0x81, 0xAA, 0xBB])])"
proof -
  have a: "mctp_accepts [0x11, 0x08, 0x09, 0xC0, 0x81, 0xAA, 0xBB]"
    by (simp add: mctp_accepts_iff)
  have b: "[0x11, 0x08, 0x09, 0xC0, 0x81, 0xAA, 0xBB] ! 3 AND (0x40 :: guint8) \<noteq> 0"
    by simp
  from dispatch_whole_message [OF a b, of "[1 \<mapsto> 7]" Map.empty pinfo_new]
  show ?thesis using a b by auto
qed

text \<open>
  The claim as stated hands the handler the buffer without its first octet. On the
  specification's example \<^verbatim>\<open>11 08 09 C0 01 AA BB\<close> the handler of type 1 gets
  \<^verbatim>\<open>01 AA BB\<close>, not \<^verbatim>\<open>AA BB\<close>.
\<close>

theorem dispatch_body_counterexample:
  "\<exists>r. dissect_mctp [1 \<mapsto> 7] Map.empty [0x11, 0x08, 0x09, 0xC0, 0x01, 0xAA, 0xBB] pinfo_new = Inr r
        \<and> calls r = [(7, [0x01, 0xAA, 0xBB])]
        \<and> calls r \<noteq> [(7, [0xAA, 0xBB])]"
  by (simp add: dissect_mctp_unfold dissector_try_uint_new_def)


section \<open>Fragments and flows\<close>

text \<open>
  A fragment changes the table at its key only, and what it does there and what it
  dispatches depend on the table at its key only.
\<close>

lemma dissect_mctp_fragment:
  assumes "mctp_accepts tvb" and "tvb ! 3 AND 0xc0 \<noteq> 0xc0"
  shows "\<exists>r. dissect_mctp dt T tvb pinfo = Inr r
           \<and> table_out r =
               (if tvb ! 3 AND 0x40 = 0
                then T(mctp_key tvb \<mapsto>
                       (case T (mctp_key tvb) of None \<Rightarrow> [] | Some fd \<Rightarrow> fd) @ [drop 4 tvb])
                else T(mctp_key tvb := None))
           \<and> calls r =
               (if tvb ! 3 AND 0x40 = 0 then []
                else dissector_try_uint_new dt
                 (ucast ((concat (case T (mctp_key tvb) of None \<Rightarrow> [] | Some fd \<Rightarrow> fd)
                            @ drop 4 tvb) ! 0 AND 0x7f))
                 (concat (case T (mctp_key tvb) of None \<Rightarrow> [] | Some fd \<Rightarrow> fd) @ drop 4 tvb))"
proof (cases "tvb ! 3 AND 0x40 = 0")
  case True
  then show ?thesis using dissect_mctp_more [OF assms(1) True, of dt T pinfo] by auto
next
  case False
  then show ?thesis using dissect_mctp_last [OF assms(1) assms(2) False, of dt T pinfo] by auto
qed

lemma dissect_mctp_other_flow:
  assumes "\<not> in_flow k tvb"
  shows "\<exists>r. dissect_mctp dt T tvb pinfo = Inr r \<and> table_out r k = T k"
proof (cases "mctp_accepts tvb")
  case False
  then show ?thesis using dissect_mctp_rejected [of tvb dt T pinfo] by auto
next
  case acc: True
  show ?thesis
  proof (cases "tvb ! 3 AND 0xc0 = 0xc0")
    case True
    then show ?thesis using dissect_mctp_single [OF acc True, of dt T pinfo] by auto
  next
    case False
    with acc assms have "mctp_key tvb \<noteq> k" by (simp add: in_flow_def)
    then show ?thesis using dissect_mctp_fragment [OF acc False, of dt T pinfo] by auto
  qed
qed

lemma dissect_mctp_same_flow:
  assumes "in_flow k tvb" and "T k = T' k"
  shows "\<exists>r r'. dissect_mctp dt T tvb pinfo = Inr r \<and> dissect_mctp dt T' tvb pinfo = Inr r'
           \<and> table_out r k = table_out r' k \<and> calls r = calls r'"
proof -
  from assms(1) have acc: "mctp_accepts tvb" and fr: "tvb ! 3 AND 0xc0 \<noteq> 0xc0"
    and k: "mctp_key tvb = k" by (simp_all add: in_flow_def)
  from dissect_mctp_fragment [OF acc fr, of dt T pinfo] dissect_mctp_fragment [OF acc fr, of dt T' pinfo]
  show ?thesis using assms(2) k by auto
qed

lemma flow_independent:
  assumes "T k = T' k"
  shows "\<exists>U tr U' tr'. dissect_packets dt T ps = Inr (U, tr)
           \<and> dissect_packets dt T' (filter (\<lambda>p. in_flow k (fst p)) ps) = Inr (U', tr')
           \<and> U k = U' k \<and> filter (\<lambda>e. in_flow k (fst e)) tr = tr'"
  using assms
proof (induction ps arbitrary: T T')
  case Nil
  then show ?case by simp
next
  case (Cons p ps)
  obtain tvb pinfo where p: "p = (tvb, pinfo)" by (cases p)
  show ?case
  proof (cases "in_flow k tvb")
    case True
    from dissect_mctp_same_flow [of k tvb T T' dt pinfo, OF True Cons.prems]
    obtain r r' where r: "dissect_mctp dt T tvb pinfo = Inr r" "dissect_mctp dt T' tvb pinfo = Inr r'"
      "table_out r k = table_out r' k" "calls r = calls r'" by blast
    from Cons.IH [of "table_out r" "table_out r'", OF r(3)]
    obtain U tr U' tr' where "dissect_packets dt (table_out r) ps = Inr (U, tr)"
      "dissect_packets dt (table_out r') (filter (\<lambda>p. in_flow k (fst p)) ps) = Inr (U', tr')"
      "U k = U' k" "filter (\<lambda>e. in_flow k (fst e)) tr = tr'" by blast
    with r True show ?thesis by (simp add: p)
  next
    case False
    from dissect_mctp_other_flow [OF False, of dt T pinfo]
    obtain r where r: "dissect_mctp dt T tvb pinfo = Inr r" "table_out r k = T k" by blast
    with Cons.prems have "table_out r k = T' k" by simp
    from Cons.IH [of "table_out r" T', OF this]
    obtain U tr U' tr' where "dissect_packets dt (table_out r) ps = Inr (U, tr)"
      "dissect_packets dt T' (filter (\<lambda>p. in_flow k (fst p)) ps) = Inr (U', tr')"
      "U k = U' k" "filter (\<lambda>e. in_flow k (fst e)) tr = tr'" by blast
    with r False show ?thesis by (simp add: p)
  qed
qed


lemma in_flow_more:
  assumes "in_flow k tvb" and "tvb ! 3 AND 0x40 = 0"
  shows "\<exists>r. dissect_mctp dt T tvb pinfo = Inr r \<and> calls r = []
           \<and> table_out r = T(k \<mapsto> (case T k of None \<Rightarrow> [] | Some fd \<Rightarrow> fd) @ [drop 4 tvb])"
  using assms dissect_mctp_more [of tvb dt T pinfo] by (auto simp: in_flow_def)

lemma in_flow_last:
  assumes "in_flow k tvb" and "tvb ! 3 AND 0x40 \<noteq> 0"
  shows "\<exists>r. dissect_mctp dt T tvb pinfo = Inr r \<and> table_out r = T(k := None)
           \<and> calls r = dissector_try_uint_new dt
                 (ucast ((concat (case T k of None \<Rightarrow> [] | Some fd \<Rightarrow> fd) @ drop 4 tvb) ! 0 AND 0x7f))
                 (concat (case T k of None \<Rightarrow> [] | Some fd \<Rightarrow> fd) @ drop 4 tvb)"
  using assms dissect_mctp_last [of tvb dt T pinfo] by (auto simp: in_flow_def)

lemma in_flow_payload: "in_flow k tvb \<Longrightarrow> drop 4 tvb \<noteq> [] \<and> drop 4 tvb ! 0 = tvb ! 4"
  by (simp add: in_flow_def mctp_accepts_iff)

lemma in_flow_key:
  "in_flow (mctp_key a) b =
     (mctp_accepts b \<and> b ! 3 AND 0xc0 \<noteq> 0xc0
      \<and> b ! 2 = a ! 2 \<and> b ! 1 = a ! 1 \<and> b ! 3 AND 0x07 = a ! 3 AND 0x07)"
  by (auto simp: in_flow_def mctp_key_def mctp_address_def ucast_8_32_inj)

lemma no_flags_eom_clear: "(b::guint8) AND 0xc0 = 0 \<Longrightarrow> b AND 0x40 = 0"
proof -
  assume a: "b AND 0xc0 = 0"
  have "(b AND 0xc0) AND 0x40 = b AND 0x40" by (simp add: and.assoc)
  with a show ?thesis by simp
qed

text \<open>
  Claim C1, as the code has it. The reassembly state a fragment is correlated with is
  identified by its source address, its destination address and its tag value
  (\<^verbatim>\<open>fst & 0x7\<close>); the tag owner is not part of the key. Three statements: in any capture,
  the state of a flow and the messages its packets dispatch are those of the capture
  with every packet outside the flow removed, so that fragments of flows with distinct
  (source, destination, tag value) never reach the same message, whatever their
  sequence numbers; a fragment of a flow changes the table at the key of the flow and
  nowhere else; and a fragment belongs to the flow of another packet exactly when the two
  agree on source address, destination address and tag value.
\<close>

theorem flows_keyed_by_addresses_and_tag_value:
  assumes "T k = T' k"
  shows "(\<exists>U tr U' tr'. dissect_packets dt T ps = Inr (U, tr)
            \<and> dissect_packets dt T' (filter (\<lambda>p. in_flow k (fst p)) ps) = Inr (U', tr')
            \<and> U k = U' k \<and> filter (\<lambda>e. in_flow k (fst e)) tr = tr')
       \<and> (in_flow k b \<longrightarrow>
            (\<exists>r. dissect_mctp dt T b pinfo = Inr r
               \<and> (\<forall>k'. k' \<noteq> k \<longrightarrow> table_out r k' = T k')
               \<and> table_out r k =
                   (if b ! 3 AND 0x40 = 0
                    then Some ((case T k of None \<Rightarrow> [] | Some fd \<Rightarrow> fd) @ [drop 4 b])
                    else None)))
       \<and> in_flow (mctp_key a) b =
            (mctp_accepts b \<and> b ! 3 AND 0xc0 \<noteq> 0xc0
             \<and> b ! 2 = a ! 2 \<and> b ! 1 = a ! 1 \<and> b ! 3 AND 0x07 = a ! 3 AND 0x07)"
proof -
  have step: "\<exists>r. dissect_mctp dt T b pinfo = Inr r
               \<and> (\<forall>k'. k' \<noteq> k \<longrightarrow> table_out r k' = T k')
               \<and> table_out r k =
                   (if b ! 3 AND 0x40 = 0
                    then Some ((case T k of None \<Rightarrow> [] | Some fd \<Rightarrow> fd) @ [drop 4 b])
                    else None)" if "in_flow k b"
  proof (cases "b ! 3 AND 0x40 = 0")
    case True
    then show ?thesis using in_flow_more [OF that True, of dt T pinfo] by auto
  next
    case False
    then show ?thesis using in_flow_last [OF that False, of dt T pinfo] by auto
  qed
  from flow_independent [of T k T' dt ps, OF assms] step in_flow_key [of a b]
  show ?thesis by blast
qed

theorem flows_keyed_by_addresses_and_tag_value_witness:
  "(Map.empty :: reassembly_table) (mctp_key [0x01, 0x08, 0x09, 0x81, 0x05, 0xA1])
     = (Map.empty :: reassembly_table) (mctp_key [0x01, 0x08, 0x09, 0x81, 0x05, 0xA1])
   \<and> (\<exists>U tr. dissect_packets [5 \<mapsto> 50, 6 \<mapsto> 60] Map.empty
                 [([0x01, 0x08, 0x09, 0x81, 0x05, 0xA1], pinfo_new),
                  ([0x01, 0x08, 0x0A, 0x81, 0x06, 0xB1], pinfo_new),
                  ([0x01, 0x08, 0x09, 0x49, 0xA2], pinfo_new)] = Inr (U, tr)
          \<and> filter (\<lambda>e. in_flow (mctp_key [0x01, 0x08, 0x09, 0x81, 0x05, 0xA1]) (fst e)) tr
              = [([0x01, 0x08, 0x09, 0x81, 0x05, 0xA1], []),
                 ([0x01, 0x08, 0x09, 0x49, 0xA2], [(50, [0x05, 0xA1, 0xA2])])])"
proof -
  let ?k = "mctp_key [0x01, 0x08, 0x09, 0x81, 0x05, 0xA1]"
  let ?ps = "[([0x01, 0x08, 0x09, 0x81, 0x05, 0xA1], pinfo_new),
              ([0x01, 0x08, 0x0A, 0x81, 0x06, 0xB1], pinfo_new),
              ([0x01, 0x08, 0x09, 0x49, 0xA2], pinfo_new)] :: (tvbuff \<times> packet_info) list"
  have h: "(Map.empty :: reassembly_table) ?k = (Map.empty :: reassembly_table) ?k" by simp
  have f: "filter (\<lambda>p. in_flow ?k (fst p)) ?ps
             = [([0x01, 0x08, 0x09, 0x81, 0x05, 0xA1], pinfo_new),
                ([0x01, 0x08, 0x09, 0x49, 0xA2], pinfo_new)]"
    by (simp add: in_flow_key mctp_accepts_iff)
  have e: "\<exists>U'. dissect_packets [5 \<mapsto> 50, 6 \<mapsto> 60] Map.empty
               [([0x01, 0x08, 0x09, 0x81, 0x05, 0xA1], pinfo_new),
                ([0x01, 0x08, 0x09, 0x49, 0xA2], pinfo_new)]
             = Inr (U', [([0x01, 0x08, 0x09, 0x81, 0x05, 0xA1], []),
                         ([0x01, 0x08, 0x09, 0x49, 0xA2], [(50, [0x05, 0xA1, 0xA2])])])"
    by (simp add: dissect_mctp_unfold dissector_try_uint_new_def)
  from flows_keyed_by_addresses_and_tag_value
         [of Map.empty ?k Map.empty "[5 \<mapsto> 50, 6 \<mapsto> 60]" ?ps, OF h]
  obtain U tr U' tr' where
    run: "dissect_packets [5 \<mapsto> 50, 6 \<mapsto> 60] Map.empty ?ps = Inr (U, tr)"
    and sub: "dissect_packets [5 \<mapsto> 50, 6 \<mapsto> 60] Map.empty
                (filter (\<lambda>p. in_flow ?k (fst p)) ?ps) = Inr (U', tr')"
    and tr: "filter (\<lambda>e. in_flow ?k (fst e)) tr = tr'"
    by blast
  from e sub have "tr' = [([0x01, 0x08, 0x09, 0x81, 0x05, 0xA1], []),
                         ([0x01, 0x08, 0x09, 0x49, 0xA2], [(50, [0x05, 0xA1, 0xA2])])]"
    unfolding f by (auto simp del: dissect_packets.simps)
  with run tr h show ?thesis by (auto simp del: dissect_packets.simps)
qed

text \<open>
  The claim as stated makes the tag owner part of the key. A start fragment with tag
  owner 0 and an end fragment with tag owner 1, same addresses and tag value, are filed
  under one key and reassembled into one message.
\<close>

theorem tag_owner_in_key_counterexample:
  "(\<exists>U. dissect_packets [5 \<mapsto> 50] Map.empty
           [([0x01, 0x08, 0x09, 0x81, 0x05, 0xA1], pinfo_new),
            ([0x01, 0x08, 0x09, 0x49, 0xB2], pinfo_new)]
         = Inr (U, [([0x01, 0x08, 0x09, 0x81, 0x05, 0xA1], []),
                    ([0x01, 0x08, 0x09, 0x49, 0xB2], [(50, [0x05, 0xA1, 0xB2])])]))
   \<and> map_option hf_mctp_tag_to (mctp_fields [0x01, 0x08, 0x09, 0x81, 0x05, 0xA1]) = Some False
   \<and> map_option hf_mctp_tag_to (mctp_fields [0x01, 0x08, 0x09, 0x49, 0xB2]) = Some True
   \<and> mctp_key [0x01, 0x08, 0x09, 0x81, 0x05, 0xA1] = mctp_key [0x01, 0x08, 0x09, 0x49, 0xB2]"
  by (simp add: dissect_mctp_unfold dissector_try_uint_new_def mctp_fields_def)

section \<open>Order of concatenation\<close>

text \<open>
  Claim C2. In a capture that starts with no state for a flow, where the packets of the
  flow are four fragments with flags start-of-message, none, none and end-of-message, in
  that order of arrival and with any packets of other flows and any other packets in
  between, the end-of-message fragment dispatches the four payloads concatenated in
  arrival order, to the handler of the type in the first payload's first octet. Nothing
  is assumed of the sequence bits of the four fragments.
\<close>

theorem arrival_order_concatenation:
  assumes "T k = None"
    and "filter (\<lambda>p. in_flow k (fst p)) ps = [(a, ia), (b, ib), (c, ic), (d, idd)]"
    and "a ! 3 AND 0x80 \<noteq> 0" and "a ! 3 AND 0x40 = 0"
    and "b ! 3 AND 0xc0 = 0" and "c ! 3 AND 0xc0 = 0"
    and "d ! 3 AND 0x80 = 0" and "d ! 3 AND 0x40 \<noteq> 0"
  shows "\<exists>U tr. dissect_packets dt T ps = Inr (U, tr) \<and> U k = None
           \<and> filter (\<lambda>e. in_flow k (fst e)) tr =
               [(a, []), (b, []), (c, []),
                (d, case dt (ucast (a ! 4 AND 0x7f)) of
                      None \<Rightarrow> []
                    | Some h \<Rightarrow> [(h, drop 4 a @ drop 4 b @ drop 4 c @ drop 4 d)])]"
proof -
  have "\<forall>p \<in> set (filter (\<lambda>p. in_flow k (fst p)) ps). in_flow k (fst p)" by simp
  then have fl: "in_flow k a" "in_flow k b" "in_flow k c" "in_flow k d"
    unfolding assms(2) by simp_all
  from in_flow_more [OF fl(1) assms(4), of dt T ia] assms(1)
  obtain r1 where r1: "dissect_mctp dt T a ia = Inr r1" "calls r1 = []"
    "table_out r1 = T(k \<mapsto> [drop 4 a])" by auto
  from in_flow_more [OF fl(2) no_flags_eom_clear [OF assms(5)], of dt "table_out r1" ib]
  obtain r2 where r2: "dissect_mctp dt (table_out r1) b ib = Inr r2" "calls r2 = []"
    "table_out r2 = T(k \<mapsto> [drop 4 a, drop 4 b])" by (auto simp: r1(3))
  from in_flow_more [OF fl(3) no_flags_eom_clear [OF assms(6)], of dt "table_out r2" ic]
  obtain r3 where r3: "dissect_mctp dt (table_out r2) c ic = Inr r3" "calls r3 = []"
    "table_out r3 = T(k \<mapsto> [drop 4 a, drop 4 b, drop 4 c])" by (auto simp: r2(3))
  from in_flow_payload [OF fl(1)]
  have ty: "(drop 4 a @ drop 4 b @ drop 4 c @ drop 4 d) ! 0 = a ! 4"
    by (simp add: nth_append)
  from in_flow_last [OF fl(4) assms(8), of dt "table_out r3" idd]
  obtain r4 where r4: "dissect_mctp dt (table_out r3) d idd = Inr r4"
    "table_out r4 k = None"
    "calls r4 = (case dt (ucast (a ! 4 AND 0x7f)) of
                   None \<Rightarrow> []
                 | Some h \<Rightarrow> [(h, drop 4 a @ drop 4 b @ drop 4 c @ drop 4 d)])"
    using ty by (auto simp: r3(3) dissector_try_uint_new_def)
  have sub: "dissect_packets dt T [(a, ia), (b, ib), (c, ic), (d, idd)]
               = Inr (table_out r4, [(a, []), (b, []), (c, []), (d, calls r4)])"
    using r1(1,2) r2(1,2) r3(1,2) r4(1) by simp
  from flow_independent [of T k T dt ps, OF refl]
  obtain U tr U' tr' where run: "dissect_packets dt T ps = Inr (U, tr)"
    and run': "dissect_packets dt T (filter (\<lambda>p. in_flow k (fst p)) ps) = Inr (U', tr')"
    and eq: "U k = U' k" "filter (\<lambda>e. in_flow k (fst e)) tr = tr'"
    by blast
  from run' sub have "U' = table_out r4" "tr' = [(a, []), (b, []), (c, []), (d, calls r4)]"
    unfolding assms(2) by simp_all
  with run eq r4(2,3) show ?thesis by simp
qed

theorem arrival_order_concatenation_witness:
  "(Map.empty :: reassembly_table) (mctp_key [0x01, 0x08, 0x09, 0xB1, 0x05, 0xA1]) = None
   \<and> (\<exists>U tr. dissect_packets [5 \<mapsto> 50, 6 \<mapsto> 60] Map.empty
                 [([0x01, 0x08, 0x09, 0xB1, 0x05, 0xA1], pinfo_new),
                  ([0x01, 0x08, 0x0A, 0xB1, 0x06, 0xB1], pinfo_new),
                  ([0x01, 0x08, 0x09, 0x31, 0xA2], pinfo_new),
                  ([0x01, 0x08, 0x09, 0x01, 0xA3], pinfo_new),
                  ([0x01, 0x08, 0x09, 0x51, 0xA4], pinfo_new)] = Inr (U, tr)
          \<and> U (mctp_key [0x01, 0x08, 0x09, 0xB1, 0x05, 0xA1]) = None
          \<and> filter (\<lambda>e. in_flow (mctp_key [0x01, 0x08, 0x09, 0xB1, 0x05, 0xA1]) (fst e)) tr
              = [([0x01, 0x08, 0x09, 0xB1, 0x05, 0xA1], []),
                 ([0x01, 0x08, 0x09, 0x31, 0xA2], []),
                 ([0x01, 0x08, 0x09, 0x01, 0xA3], []),
                 ([0x01, 0x08, 0x09, 0x51, 0xA4], [(50, [0x05, 0xA1, 0xA2, 0xA3, 0xA4])])])"
proof -
  let ?a = "[0x01, 0x08, 0x09, 0xB1, 0x05, 0xA1] :: tvbuff"
  let ?b = "[0x01, 0x08, 0x09, 0x31, 0xA2] :: tvbuff"
  let ?c = "[0x01, 0x08, 0x09, 0x01, 0xA3] :: tvbuff"
  let ?d = "[0x01, 0x08, 0x09, 0x51, 0xA4] :: tvbuff"
  let ?ps = "[(?a, pinfo_new), ([0x01, 0x08, 0x0A, 0xB1, 0x06, 0xB1], pinfo_new),
              (?b, pinfo_new), (?c, pinfo_new), (?d, pinfo_new)]"
  have h: "(Map.empty :: reassembly_table) (mctp_key ?a) = None" by simp
  have f: "filter (\<lambda>p. in_flow (mctp_key ?a) (fst p)) ?ps
             = [(?a, pinfo_new), (?b, pinfo_new), (?c, pinfo_new), (?d, pinfo_new)]"
    by (simp add: in_flow_key mctp_accepts_iff)
  have fl: "?a ! 3 AND 0x80 \<noteq> 0" "?a ! 3 AND 0x40 = 0" "?b ! 3 AND 0xc0 = 0"
    "?c ! 3 AND 0xc0 = 0" "?d ! 3 AND 0x80 = 0" "?d ! 3 AND 0x40 \<noteq> 0"
    by simp_all
  from arrival_order_concatenation [OF h f fl, of "[5 \<mapsto> 50, 6 \<mapsto> 60]"]
  show ?thesis by (auto simp del: dissect_packets.simps)
qed

section \<open>Fragments on a key without state\<close>

text \<open>
  Claim C10. A fragment whose key has no state in the table creates it, whether or not
  its start-of-message bit is set (the bit is not among the hypotheses): without
  end-of-message the table then holds its payload under the key and nothing is
  dispatched; with end-of-message the reassembly is complete at once, no state stays in
  the table, and the message dispatched is exactly the payload of that one fragment.
\<close>

theorem first_fragment_creates_state:
  assumes "in_flow k tvb" and "T k = None"
  shows "\<exists>r. dissect_mctp dt T tvb pinfo = Inr r
           \<and> (if tvb ! 3 AND 0x40 = 0
               then table_out r = T(k \<mapsto> [drop 4 tvb]) \<and> calls r = []
               else table_out r = T
                    \<and> calls r = (case dt (ucast (tvb ! 4 AND 0x7f)) of
                                   None \<Rightarrow> [] | Some h \<Rightarrow> [(h, drop 4 tvb)]))"
proof (cases "tvb ! 3 AND 0x40 = 0")
  case True
  then show ?thesis using in_flow_more [OF assms(1) True, of dt T pinfo] assms(2) by auto
next
  case False
  have "T(k := None) = T" using assms(2) by auto
  then show ?thesis
    using in_flow_last [OF assms(1) False, of dt T pinfo] assms(2) False
      in_flow_payload [OF assms(1)]
    by (auto simp: dissector_try_uint_new_def)
qed

theorem first_fragment_creates_state_witness:
  "in_flow (mctp_key [0x01, 0x08, 0x09, 0x11, 0x05, 0xA1]) [0x01, 0x08, 0x09, 0x11, 0x05, 0xA1]
   \<and> in_flow (mctp_key [0x01, 0x08, 0x09, 0x41, 0x05, 0xA1]) [0x01, 0x08, 0x09, 0x41, 0x05, 0xA1]
   \<and> (\<exists>r. dissect_mctp [5 \<mapsto> 50] Map.empty [0x01, 0x08, 0x09, 0x11, 0x05, 0xA1] pinfo_new = Inr r
          \<and> table_out r = [mctp_key [0x01, 0x08, 0x09, 0x11, 0x05, 0xA1] \<mapsto> [[0x05, 0xA1]]]
          \<and> calls r = [])
   \<and> (\<exists>r. dissect_mctp [5 \<mapsto> 50] Map.empty [0x01, 0x08, 0x09, 0x41, 0x05, 0xA1] pinfo_new = Inr r
          \<and> table_out r = Map.empty
          \<and> calls r = [(50, [0x05, 0xA1])])"
proof -
  have a: "in_flow (mctp_key [0x01, 0x08, 0x09, 0x11, 0x05, 0xA1]) [0x01, 0x08, 0x09, 0x11, 0x05, 0xA1]"
    by (simp add: in_flow_key mctp_accepts_iff)
  have b: "in_flow (mctp_key [0x01, 0x08, 0x09, 0x41, 0x05, 0xA1]) [0x01, 0x08, 0x09, 0x41, 0x05, 0xA1]"
    by (simp add: in_flow_key mctp_accepts_iff)
  from first_fragment_creates_state [OF a, of Map.empty "[5 \<mapsto> 50]" pinfo_new]
       first_fragment_creates_state [OF b, of Map.empty "[5 \<mapsto> 50]" pinfo_new]
  show ?thesis using a b by simp
qed

section \<open>Start-of-message on a key with state\<close>

text \<open>
  Claim C4, as the code has it. The fragment branch of \<^verbatim>\<open>dissect_mctp\<close> never reads the
  start-of-message bit: the reassembly functions get the tag value and the negated
  end-of-message bit only. A fragment with start-of-message set and end-of-message clear
  on a key with an incomplete reassembly is appended to that state like any other
  fragment, and the payload buffered before it comes first in the message an
  end-of-message fragment then completes for the key.
\<close>

theorem som_appends_to_active_state:
  assumes "in_flow k tvb" and "tvb ! 3 AND 0x80 \<noteq> 0" and "tvb ! 3 AND 0x40 = 0"
    and "T k = Some old"
    and "in_flow k tvb'" and "tvb' ! 3 AND 0x40 \<noteq> 0"
  shows "\<exists>r r'. dissect_mctp dt T tvb pinfo = Inr r
           \<and> table_out r = T(k \<mapsto> old @ [drop 4 tvb]) \<and> calls r = []
           \<and> dissect_mctp dt (table_out r) tvb' pinfo' = Inr r'
           \<and> table_out r' k = None
           \<and> calls r' = dissector_try_uint_new dt
                 (ucast ((concat old @ drop 4 tvb @ drop 4 tvb') ! 0 AND 0x7f))
                 (concat old @ drop 4 tvb @ drop 4 tvb')"
proof -
  from in_flow_more [OF assms(1) assms(3), of dt T pinfo] assms(4)
  obtain r where r: "dissect_mctp dt T tvb pinfo = Inr r" "calls r = []"
    "table_out r = T(k \<mapsto> old @ [drop 4 tvb])" by auto
  from in_flow_last [OF assms(5) assms(6), of dt "table_out r" pinfo']
  obtain r' where "dissect_mctp dt (table_out r) tvb' pinfo' = Inr r'"
    "table_out r' k = None"
    "calls r' = dissector_try_uint_new dt
                 (ucast ((concat old @ drop 4 tvb @ drop 4 tvb') ! 0 AND 0x7f))
                 (concat old @ drop 4 tvb @ drop 4 tvb')"
    by (auto simp: r(3))
  with r show ?thesis by blast
qed

theorem som_appends_to_active_state_witness:
  "(\<exists>r r'. dissect_mctp [5 \<mapsto> 50, 6 \<mapsto> 60]
               [mctp_key [0x01, 0x08, 0x09, 0x91, 0x06, 0xB2] \<mapsto> [[0x05, 0xA1]]]
               [0x01, 0x08, 0x09, 0x91, 0x06, 0xB2] pinfo_new = Inr r
          \<and> table_out r (mctp_key [0x01, 0x08, 0x09, 0x91, 0x06, 0xB2])
               = Some [[0x05, 0xA1], [0x06, 0xB2]]
          \<and> dissect_mctp [5 \<mapsto> 50, 6 \<mapsto> 60] (table_out r)
               [0x01, 0x08, 0x09, 0x61, 0xC3] pinfo_new = Inr r'
          \<and> calls r' = [(50, [0x05, 0xA1, 0x06, 0xB2, 0xC3])])"
proof -
  let ?p = "[0x01, 0x08, 0x09, 0x91, 0x06, 0xB2] :: tvbuff"
  let ?q = "[0x01, 0x08, 0x09, 0x61, 0xC3] :: tvbuff"
  have a: "in_flow (mctp_key ?p) ?p" "in_flow (mctp_key ?p) ?q"
    by (simp_all add: in_flow_key mctp_accepts_iff)
  have f: "?p ! 3 AND 0x80 \<noteq> 0" "?p ! 3 AND 0x40 = 0" "?q ! 3 AND 0x40 \<noteq> 0" by simp_all
  have t: "[mctp_key ?p \<mapsto> [[0x05, 0xA1]]] (mctp_key ?p) = Some [[0x05, 0xA1 :: guint8]]" by simp
  from som_appends_to_active_state
         [of "mctp_key ?p" ?p "[mctp_key ?p \<mapsto> [[0x05, 0xA1]]]" "[[0x05, 0xA1]]" ?q
            "[5 \<mapsto> 50, 6 \<mapsto> 60]" pinfo_new pinfo_new,
          OF a(1) f(1) f(2) t a(2) f(3)]
  show ?thesis by (auto simp: dissector_try_uint_new_def)
qed

text \<open>
  The claim as stated has the second start-of-message fragment discard the first. The
  message completed after start (\<^verbatim>\<open>05 A1\<close>), start again (\<^verbatim>\<open>06 B2\<close>) and end (\<^verbatim>\<open>C3\<close>) on
  one key is \<^verbatim>\<open>05 A1 06 B2 C3\<close>, dispatched as type 5.
\<close>

theorem som_restart_counterexample:
  "\<exists>U. dissect_packets [5 \<mapsto> 50, 6 \<mapsto> 60] Map.empty
          [([0x01, 0x08, 0x09, 0x81, 0x05, 0xA1], pinfo_new),
           ([0x01, 0x08, 0x09, 0x91, 0x06, 0xB2], pinfo_new),
           ([0x01, 0x08, 0x09, 0x61, 0xC3], pinfo_new)]
        = Inr (U, [([0x01, 0x08, 0x09, 0x81, 0x05, 0xA1], []),
                   ([0x01, 0x08, 0x09, 0x91, 0x06, 0xB2], []),
                   ([0x01, 0x08, 0x09, 0x61, 0xC3], [(50, [0x05, 0xA1, 0x06, 0xB2, 0xC3])])])"
  by (simp add: dissect_mctp_unfold dissector_try_uint_new_def)

end
